theory Spec2Isabelle
  imports Complex_Main "HOL-Library.Word"
begin

section \<open>Data transfer objects (data\_access\_engine.h)\<close>

text \<open>
  A C++ \<open>double\<close>. A finite double is represented by the real number it denotes; the two
  infinities and NaN are separate values. The code only compares doubles with the
  literals \<open>0.0\<close>, \<open>1.0\<close> and \<open>999.0\<close>, which are exact, so no rounding is involved.
  Every comparison with NaN is false, as in IEEE 754.
\<close>

datatype double = Finite real | PosInf | NegInf | NaN

fun double_less :: "double \<Rightarrow> double \<Rightarrow> bool" where
  "double_less NaN _ = False"
| "double_less _ NaN = False"
| "double_less (Finite a) (Finite b) = (a < b)"
| "double_less (Finite a) PosInf = True"
| "double_less (Finite a) NegInf = False"
| "double_less PosInf _ = False"
| "double_less NegInf NegInf = False"
| "double_less NegInf _ = True"

fun double_le :: "double \<Rightarrow> double \<Rightarrow> bool" where
  "double_le NaN _ = False"
| "double_le _ NaN = False"
| "double_le (Finite a) (Finite b) = (a \<le> b)"
| "double_le (Finite a) PosInf = True"
| "double_le (Finite a) NegInf = False"
| "double_le PosInf PosInf = True"
| "double_le PosInf _ = False"
| "double_le NegInf _ = True"

definition double_greater :: "double \<Rightarrow> double \<Rightarrow> bool" where
  "double_greater a b = double_less b a"

definition double_ge :: "double \<Rightarrow> double \<Rightarrow> bool" where
  "double_ge a b = double_le b a"

text \<open>\<open>std::chrono::system_clock::time_point\<close>: ticks since the epoch.\<close>

type_synonym time_point = int

record ProjectInfo =
  title :: string
  artist :: string
  album :: string
  genre :: string
  tempo :: double
  timeSignature :: string
  key :: string
  created :: time_point
  modified :: time_point

datatype TrackType = Audio | Instrument | Group | Return

record TrackInfo =
  track_id :: string
  track_name :: string
  track_type :: TrackType
  track_color :: string
  track_volume :: double
  track_pan :: double
  track_muted :: bool
  track_soloed :: bool
  track_orderIndex :: "32 word"
  track_instrumentId :: "string option"
  track_audioFile :: "string option"

record ClipInfo =
  clip_id :: string
  clip_name :: string
  clip_trackId :: string
  clip_startTime :: double
  clip_duration :: double
  clip_playbackRate :: double
  clip_fadeInTime :: double
  clip_fadeOutTime :: double
  clip_contentId :: "string option"
  clip_audioFile :: "string option"

record ValidationResult =
  isValid :: bool
  errors :: "string list"
  warnings :: "string list"
  "context" :: string

text \<open>
  \<open>Result<T>\<close>. The error code is a C++ \<open>int\<close>, a 32-bit word read as two's complement.
\<close>

record 'a Result =
  success :: bool
  "value" :: 'a
  errorMessage :: string
  errorCode :: "32 word"

subsection \<open>Value initialisation \<open>T{}\<close>\<close>

text \<open>
  \<open>T{}\<close> value-initialises: strings and vectors are empty, arithmetic members are zero,
  a \<open>bool\<close> is false, an enum is its first enumerator, an optional is empty and a
  time point is the epoch. The class \<open>default\<close> carries that value for each type
  \<open>Result\<close> is instantiated at.
\<close>

instantiation nat :: default
begin
definition default_nat :: nat where "default_nat = 0"
instance ..
end

instantiation list :: (type) default
begin
definition default_list :: "'a list" where "default_list = []"
instance ..
end

instantiation ProjectInfo_ext :: (default) default
begin
definition default_ProjectInfo_ext :: "'a ProjectInfo_ext" where
  "default_ProjectInfo_ext =
     \<lparr>title = [], artist = [], album = [], genre = [], tempo = Finite 0,
      timeSignature = [], key = [], created = 0, modified = 0, \<dots> = default\<rparr>"
instance ..
end

instantiation TrackInfo_ext :: (default) default
begin
definition default_TrackInfo_ext :: "'a TrackInfo_ext" where
  "default_TrackInfo_ext =
     \<lparr>track_id = [], track_name = [], track_type = Audio, track_color = [],
      track_volume = Finite 0, track_pan = Finite 0, track_muted = False,
      track_soloed = False, track_orderIndex = 0, track_instrumentId = None,
      track_audioFile = None, \<dots> = default\<rparr>"
instance ..
end

instantiation ClipInfo_ext :: (default) default
begin
definition default_ClipInfo_ext :: "'a ClipInfo_ext" where
  "default_ClipInfo_ext =
     \<lparr>clip_id = [], clip_name = [], clip_trackId = [], clip_startTime = Finite 0,
      clip_duration = Finite 0, clip_playbackRate = Finite 0, clip_fadeInTime = Finite 0,
      clip_fadeOutTime = Finite 0, clip_contentId = None, clip_audioFile = None,
      \<dots> = default\<rparr>"
instance ..
end

definition makeSuccess :: "'a \<Rightarrow> 'a Result" where
  "makeSuccess v = \<lparr>success = True, value = v, errorMessage = [], errorCode = 0\<rparr>"

definition makeError :: "string \<Rightarrow> 32 word \<Rightarrow> ('a::default) Result" where
  "makeError message code =
     \<lparr>success = False, value = default, errorMessage = message, errorCode = code\<rparr>"

text \<open>\<open>makeError(message)\<close> with the default argument \<open>code = -1\<close>.\<close>

abbreviation makeError1 :: "string \<Rightarrow> ('a::default) Result" where
  "makeError1 message \<equiv> makeError message (- 1)"

section \<open>Validation rules (data\_access\_engine\_impl.cpp)\<close>

definition ProjectInfo_isValid :: "ProjectInfo \<Rightarrow> bool" where
  "ProjectInfo_isValid p = (title p \<noteq> [] \<and> double_greater (tempo p) (Finite 0))"

definition getValidationErrors :: "ProjectInfo \<Rightarrow> string list" where
  "getValidationErrors p =
     (let errors0 = [];
          errors1 = (if title p = [] then errors0 @ [''Project title cannot be empty'']
                     else errors0);
          errors2 = (if double_le (tempo p) (Finite 0)
                     then errors1 @ [''Project tempo must be greater than 0'']
                     else errors1);
          errors3 = (if timeSignature p = [] then errors2 @ [''Time signature cannot be empty'']
                     else errors2)
      in errors3)"

definition TrackInfo_isValid :: "TrackInfo \<Rightarrow> bool" where
  "TrackInfo_isValid t =
     (track_id t \<noteq> [] \<and> track_name t \<noteq> [] \<and> double_ge (track_volume t) (Finite 0)
      \<and> double_le (track_volume t) (Finite 1))"

definition ClipInfo_isValid :: "ClipInfo \<Rightarrow> bool" where
  "ClipInfo_isValid c =
     (clip_id c \<noteq> [] \<and> clip_name c \<noteq> [] \<and> clip_trackId c \<noteq> []
      \<and> double_greater (clip_duration c) (Finite 0)
      \<and> double_ge (clip_startTime c) (Finite 0))"

definition addError :: "ValidationResult \<Rightarrow> string \<Rightarrow> ValidationResult" where
  "addError r message = r\<lparr>errors := errors r @ [message], isValid := False\<rparr>"

definition addWarning :: "ValidationResult \<Rightarrow> string \<Rightarrow> ValidationResult" where
  "addWarning r message = r\<lparr>warnings := warnings r @ [message]\<rparr>"

text \<open>
  \<open>a.merge(other)\<close>. The parameter \<open>other\<close> is a reference: it names another object, or
  the receiver itself (\<open>a.merge(a)\<close>); the code has no guard for the second case. With
  another object the receiver is returned updated and \<open>other\<close> is only read. With the
  receiver, \<open>errors.insert(errors.end(), other.errors.begin(), other.errors.end())\<close> inserts
  a vector's own range into itself, which the C++ standard leaves undefined (a vector
  that has to grow moves its strings away before it copies them, and appends empty
  strings): \<open>None\<close> stands for a call without a defined result.
\<close>

datatype merge_argument = Another ValidationResult | Receiver

fun merge :: "ValidationResult \<Rightarrow> merge_argument \<Rightarrow> ValidationResult option" where
  "merge r Receiver = None"
| "merge r (Another other) =
     Some (let r1 = r\<lparr>errors := errors r @ errors other\<rparr>;
               r2 = r1\<lparr>warnings := warnings r1 @ warnings other\<rparr>
           in if \<not> isValid other then r2\<lparr>isValid := False\<rparr> else r2)"

section \<open>The standard library and the operating system\<close>

text \<open>
  The engine, the reader and the writer ask the file system, the clock and the number
  formatter of the C++ library. An \<open>env\<close> value holds the answers they give during one
  call of an operation. A file-system query that can throw \<open>filesystem_error\<close> answers
  \<open>Inl what\<close> when it throws. Allocation failure (\<open>bad_alloc\<close>) is not modelled.
  \<^item> \<open>fs_create_directories\<close> is the overload with an \<open>error_code\<close>: \<open>Some message\<close> when
    the code is set.
  \<^item> \<open>ofstream_fail path content\<close> is the stream's fail bit after \<open>content\<close> was
    streamed to the file opened at \<open>path\<close>.
  \<^item> \<open>to_string_double\<close> is \<open>std::to_string(double)\<close>, \<open>ostream_double\<close> is \<open>operator<<\<close>
    on a double; both depend on the locale.
  \<^item> \<open>system_clock_now k\<close> is the answer to the \<open>k\<close>-th read of the clock in the call.
  \<^item> the \<open>indeterminate\<close> fields are the values of scalar members that the code
    leaves uninitialised.
\<close>

record env =
  fs_exists :: "string \<Rightarrow> string + bool"
  fs_is_regular_file :: "string \<Rightarrow> string + bool"
  fs_file_size :: "string \<Rightarrow> string + nat"
  fs_weakly_canonical :: "string \<Rightarrow> string + string"
  fs_create_directories :: "string \<Rightarrow> string option"
  ifstream_good :: "string \<Rightarrow> bool"
  ofstream_trunc_is_open :: "string \<Rightarrow> bool"
  ofstream_app_good :: "string \<Rightarrow> bool"
  ofstream_fail :: "string \<Rightarrow> string \<Rightarrow> bool"
  to_string_double :: "double \<Rightarrow> string"
  ostream_double :: "double \<Rightarrow> string"
  system_clock_now :: "nat \<Rightarrow> time_point"
  indeterminate_bool :: "nat \<Rightarrow> bool"
  indeterminate_int :: "32 word"
  indeterminate_double :: double

subsection \<open>Paths and strings\<close>

text \<open>
  A \<open>std::filesystem::path\<close> is its string in the generic format with \<open>/\<close> as the
  separator. \<open>filename\<close> is what follows the last separator; \<open>parent_path\<close> is what
  precedes the last component, without trailing separators unless it is the root;
  \<open>extension\<close> is the filename from its last dot on, and empty for \<open>.\<close>, \<open>..\<close>, a name
  without a dot and a name whose only dot is its first character.
\<close>

definition filename :: "string \<Rightarrow> string" where
  "filename p = rev (takeWhile (\<lambda>c. c \<noteq> CHR ''/'') (rev p))"

definition parent_path :: "string \<Rightarrow> string" where
  "parent_path p =
     (let d = rev (dropWhile (\<lambda>c. c \<noteq> CHR ''/'') (rev p))
      in if d = [] then []
         else let s = rev (dropWhile (\<lambda>c. c = CHR ''/'') (rev d))
              in if s = [] then ''/'' else s)"

definition extension :: "string \<Rightarrow> string" where
  "extension p =
     (let f = filename p;
          e = rev (takeWhile (\<lambda>c. c \<noteq> CHR ''.'') (rev f))
      in if f = ''.'' \<or> f = ''..'' then []
         else if CHR ''.'' \<notin> set f then []
         else if Suc (length e) = length f then []
         else CHR ''.'' # e)"

text \<open>\<open>s.find(pat) != std::string::npos\<close>: \<open>pat\<close> occurs in \<open>s\<close>.\<close>

fun str_contains :: "string \<Rightarrow> string \<Rightarrow> bool" where
  "str_contains [] pat = (pat = [])"
| "str_contains (c # cs) pat = (take (length pat) (c # cs) = pat \<or> str_contains cs pat)"

text \<open>\<open>std::to_string\<close> on a \<open>size_t\<close>: the decimal digits.\<close>

definition digit_char :: "nat \<Rightarrow> char" where
  "digit_char d = char_of (48 + d)"

fun to_string_nat :: "nat \<Rightarrow> string" where
  "to_string_nat n =
     (if n < 10 then [digit_char n] else to_string_nat (n div 10) @ [digit_char (n mod 10)])"

declare to_string_nat.simps [simp del]

section \<open>Streaming reader (ProjectReaderImpl)\<close>

record ProjectReaderImpl =
  r_filePath :: string
  r_isOpen :: bool
  r_projectInfo :: ProjectInfo
  r_tracks :: "TrackInfo list"
  r_clips :: "ClipInfo list"
  r_currentTrackIndex :: nat
  r_currentClipIndex :: nat

text \<open>
  The constructor: \<open>Inl\<close> is the message of the \<open>invalid_argument\<close> it throws. The
  members without an initialiser are default-initialised: empty strings and vectors,
  the epoch, and an indeterminate tempo.
\<close>

definition ProjectReaderImpl_ctor :: "env \<Rightarrow> string \<Rightarrow> string + ProjectReaderImpl" where
  "ProjectReaderImpl_ctor e path =
     (if path = [] then Inl ''Path cannot be empty''
      else Inr \<lparr>r_filePath = path, r_isOpen = False,
                r_projectInfo = \<lparr>title = [], artist = [], album = [], genre = [],
                                  tempo = indeterminate_double e, timeSignature = [],
                                  key = [], created = 0, modified = 0\<rparr>,
                r_tracks = [], r_clips = [],
                r_currentTrackIndex = 0, r_currentClipIndex = 0\<rparr>)"

definition createReader :: "env \<Rightarrow> string \<Rightarrow> ProjectReaderImpl option" where
  "createReader e path =
     (if path = [] then None
      else case ProjectReaderImpl_ctor e path of Inl _ \<Rightarrow> None | Inr r \<Rightarrow> Some r)"

text \<open>The sample track that \<open>open()\<close> loads; \<open>TrackInfo track;\<close> leaves three scalars unset.\<close>

definition sample_track :: "env \<Rightarrow> TrackInfo" where
  "sample_track e =
     \<lparr>track_id = ''track_1'', track_name = ''Audio Track 1'', track_type = Audio,
      track_color = [], track_volume = Finite 1, track_pan = Finite 0,
      track_muted = indeterminate_bool e 0, track_soloed = indeterminate_bool e 1,
      track_orderIndex = indeterminate_int e, track_instrumentId = None,
      track_audioFile = None\<rparr>"

definition reader_open :: "env \<Rightarrow> ProjectReaderImpl \<Rightarrow> bool \<times> ProjectReaderImpl" where
  "reader_open e r =
     (if r_isOpen r then (True, r)
      else case fs_exists e (r_filePath r) of
        Inl _ \<Rightarrow> (False, r\<lparr>r_isOpen := False\<rparr>)
      | Inr ex \<Rightarrow>
          if \<not> ex then (False, r)
          else (case fs_is_regular_file e (r_filePath r) of
            Inl _ \<Rightarrow> (False, r\<lparr>r_isOpen := False\<rparr>)
          | Inr reg \<Rightarrow>
              if \<not> reg then (False, r)
              else if \<not> ifstream_good e (r_filePath r) then (False, r)
              else let info = r_projectInfo r;
                       info' = info\<lparr>title := ''Sample Project'', tempo := Finite 120,
                                    artist := ''Test Artist'', timeSignature := ''4/4'',
                                    created := system_clock_now e 0,
                                    modified := system_clock_now e 1\<rparr>
                   in (True, r\<lparr>r_isOpen := True, r_projectInfo := info',
                                r_tracks := [sample_track e], r_clips := []\<rparr>)))"

definition reader_close :: "ProjectReaderImpl \<Rightarrow> ProjectReaderImpl" where
  "reader_close r = r\<lparr>r_isOpen := False, r_currentTrackIndex := 0, r_currentClipIndex := 0\<rparr>"

definition readProjectInfo :: "env \<Rightarrow> ProjectReaderImpl \<Rightarrow> ProjectInfo Result" where
  "readProjectInfo e r =
     (if \<not> r_isOpen r then makeError1 ''Reader not open''
      else if title (r_projectInfo r) = [] then makeError1 ''Project title is empty''
      else if double_le (tempo (r_projectInfo r)) (Finite 0)
        then makeError1 (''Invalid project tempo: '' @ to_string_double e (tempo (r_projectInfo r)))
      else makeSuccess (r_projectInfo r))"

text \<open>
  \<open>readNextTrack()\<close> returns its result and the reader after the call. The cursor is
  advanced as soon as the track is fetched, before its id is validated.
\<close>

definition readNextTrack :: "ProjectReaderImpl \<Rightarrow> TrackInfo Result \<times> ProjectReaderImpl" where
  "readNextTrack r =
     (if \<not> r_isOpen r then (makeError1 ''Reader not open'', r)
      else if r_currentTrackIndex r \<ge> length (r_tracks r)
        then (makeError1 ''No more tracks available'', r)
      else if r_tracks r = [] then (makeError1 ''No tracks loaded'', r)
      else if r_currentTrackIndex r \<ge> length (r_tracks r)
        then (makeError1 ''Track index out of bounds'', r)
      else let track = r_tracks r ! r_currentTrackIndex r;
               r' = r\<lparr>r_currentTrackIndex := r_currentTrackIndex r + 1\<rparr>
           in if track_id track = [] then (makeError1 ''Track has empty ID'', r')
              else (makeSuccess track, r'))"

definition readNextClip :: "env \<Rightarrow> ProjectReaderImpl \<Rightarrow> ClipInfo Result \<times> ProjectReaderImpl" where
  "readNextClip e r =
     (if \<not> r_isOpen r then (makeError1 ''Reader not open'', r)
      else if r_currentClipIndex r \<ge> length (r_clips r)
        then (makeError1 ''No more clips available'', r)
      else if r_clips r = [] then (makeError1 ''No clips loaded'', r)
      else if r_currentClipIndex r \<ge> length (r_clips r)
        then (makeError1 ''Clip index out of bounds'', r)
      else let clip = r_clips r ! r_currentClipIndex r;
               r' = r\<lparr>r_currentClipIndex := r_currentClipIndex r + 1\<rparr>
           in if clip_id clip = [] then (makeError1 ''Clip has empty ID'', r')
              else if double_less (clip_startTime clip) (Finite 0)
                then (makeError1 (''Clip has invalid start time: ''
                                   @ to_string_double e (clip_startTime clip)), r')
              else (makeSuccess clip, r'))"

definition hasMoreTracks :: "ProjectReaderImpl \<Rightarrow> bool" where
  "hasMoreTracks r = (r_currentTrackIndex r < length (r_tracks r))"

definition hasMoreClips :: "ProjectReaderImpl \<Rightarrow> bool" where
  "hasMoreClips r = (r_currentClipIndex r < length (r_clips r))"

definition getTrackCount :: "ProjectReaderImpl \<Rightarrow> nat" where
  "getTrackCount r = length (r_tracks r)"

definition getClipCount :: "ProjectReaderImpl \<Rightarrow> nat" where
  "getClipCount r = length (r_clips r)"

text \<open>
  A caller that calls \<open>readNextTrack()\<close> \<open>n\<close> times in a row: the results in call order
  and the reader afterwards.
\<close>

fun readTracks :: "nat \<Rightarrow> ProjectReaderImpl \<Rightarrow> TrackInfo Result list \<times> ProjectReaderImpl" where
  "readTracks 0 r = ([], r)"
| "readTracks (Suc n) r =
     (let (res, r') = readNextTrack r;
          (rs, r'') = readTracks n r'
      in (res # rs, r''))"

section \<open>Streaming writer (ProjectWriterImpl)\<close>

text \<open>
  The buffer is a \<open>std::string\<close>; its \<open>size()\<close> is the length of the list. The sum
  \<open>xmlBuffer_.size() + fragment.size()\<close> is a \<open>size_t\<close> sum of the sizes of two strings
  held in memory, each below \<open>max_size()\<close>, which is less than half the range of
  \<open>size_t\<close>: the sum cannot wrap, so sizes are natural numbers.
\<close>

record ProjectWriterImpl =
  w_filePath :: string
  w_isOpen :: bool
  w_xmlBuffer :: string

definition ProjectWriterImpl_ctor :: "string \<Rightarrow> string + ProjectWriterImpl" where
  "ProjectWriterImpl_ctor path =
     (if path = [] then Inl ''Path cannot be empty''
      else Inr \<lparr>w_filePath = path, w_isOpen = False, w_xmlBuffer = []\<rparr>)"

definition xml_header :: string where
  \<open>xml_header = ''<?xml version="1.0" encoding="UTF-8"?>\<newline><Project>\<newline>''\<close>

definition writer_open :: "env \<Rightarrow> ProjectWriterImpl \<Rightarrow> bool \<times> ProjectWriterImpl" where
  "writer_open e w =
     (if w_isOpen w then (True, w)
      else let parentPath = parent_path (w_filePath w);
               opened = (if \<not> ofstream_app_good e (w_filePath w) then (False, w)
                         else (True, w\<lparr>w_isOpen := True, w_xmlBuffer := xml_header\<rparr>))
           in if parentPath = [] then opened
              else (case fs_exists e parentPath of
                Inl _ \<Rightarrow> (False, w)
              | Inr True \<Rightarrow> opened
              | Inr False \<Rightarrow>
                  (case fs_create_directories e parentPath of
                     Some _ \<Rightarrow> (False, w)
                   | None \<Rightarrow> opened)))"

definition writer_close :: "ProjectWriterImpl \<Rightarrow> ProjectWriterImpl" where
  "writer_close w = w\<lparr>w_isOpen := False, w_xmlBuffer := []\<rparr>"

text \<open>The 10 MiB ceiling \<open>10 * 1024 * 1024\<close> of the buffer.\<close>

definition buffer_limit :: nat where
  "buffer_limit = 10 * 1024 * 1024"

definition projectXml :: "env \<Rightarrow> ProjectInfo \<Rightarrow> string" where
  \<open>projectXml e project =
     ''  <ProjectInfo title="'' @ title project @ ''" tempo="''
       @ to_string_double e (tempo project) @ ''" artist="'' @ artist project
       @ ''"/>\<newline>''\<close>

definition writeProjectInfo ::
  "env \<Rightarrow> ProjectWriterImpl \<Rightarrow> ProjectInfo \<Rightarrow> nat Result \<times> ProjectWriterImpl" where
  "writeProjectInfo e w project =
     (if \<not> w_isOpen w then (makeError1 ''Writer not open'', w)
      else if title project = [] then (makeError1 ''Project title cannot be empty'', w)
      else if double_le (tempo project) (Finite 0) \<or> double_greater (tempo project) (Finite 999)
        then (makeError1 (''Invalid tempo: '' @ to_string_double e (tempo project)), w)
      else if length (artist project) > 256
        then (makeError1 (''Artist name too long: '' @ to_string_nat (length (artist project))
                          @ '' characters''), w)
      else if length (w_xmlBuffer w) + length (projectXml e project) > buffer_limit
        then (makeError1 ''XML buffer size limit exceeded'', w)
      else (makeSuccess (length (projectXml e project)),
            w\<lparr>w_xmlBuffer := w_xmlBuffer w @ projectXml e project\<rparr>))"

definition trackXml :: "TrackInfo \<Rightarrow> string" where
  \<open>trackXml track =
     ''  <Track id="'' @ track_id track @ ''" name="'' @ track_name track @ ''"/>\<newline>''\<close>

definition writeTrack :: "ProjectWriterImpl \<Rightarrow> TrackInfo \<Rightarrow> nat Result \<times> ProjectWriterImpl" where
  "writeTrack w track =
     (if \<not> w_isOpen w then (makeError1 ''Writer not open'', w)
      else if track_id track = [] then (makeError1 ''Track ID cannot be empty'', w)
      else if track_name track = [] then (makeError1 ''Track name cannot be empty'', w)
      else if length (w_xmlBuffer w) + length (trackXml track) > buffer_limit
        then (makeError1 ''XML buffer size limit exceeded'', w)
      else (makeSuccess (length (trackXml track)),
            w\<lparr>w_xmlBuffer := w_xmlBuffer w @ trackXml track\<rparr>))"

definition clipXml :: "env \<Rightarrow> ClipInfo \<Rightarrow> string" where
  \<open>clipXml e clip =
     ''  <Clip id="'' @ clip_id clip @ ''" start="''
       @ to_string_double e (clip_startTime clip) @ ''"/>\<newline>''\<close>

definition writeClip ::
  "env \<Rightarrow> ProjectWriterImpl \<Rightarrow> ClipInfo \<Rightarrow> nat Result \<times> ProjectWriterImpl" where
  "writeClip e w clip =
     (if \<not> w_isOpen w then (makeError1 ''Writer not open'', w)
      else if clip_id clip = [] then (makeError1 ''Clip ID cannot be empty'', w)
      else if double_less (clip_startTime clip) (Finite 0)
        then (makeError1 ''Clip start time cannot be negative'', w)
      else if length (w_xmlBuffer w) + length (clipXml e clip) > buffer_limit
        then (makeError1 ''XML buffer size limit exceeded'', w)
      else (makeSuccess (length (clipXml e clip)),
            w\<lparr>w_xmlBuffer := w_xmlBuffer w @ clipXml e clip\<rparr>))"

text \<open>
  \<open>finalize()\<close> appends the closing tag to the buffer before it opens the file, so the
  buffer keeps the tag on every later failure. The third component is the content
  streamed to the file, when the file was opened.
\<close>

definition finalize ::
  "env \<Rightarrow> ProjectWriterImpl \<Rightarrow> nat Result \<times> ProjectWriterImpl \<times> string option" where
  "finalize e w =
     (if \<not> w_isOpen w then (makeError1 ''Writer not open'', w, None)
      else let w' = w\<lparr>w_xmlBuffer := w_xmlBuffer w @ ''</Project>\<newline>''\<rparr>
           in if \<not> ofstream_trunc_is_open e (w_filePath w')
                then (makeError1 ''Failed to create output file'', w', None)
              else if ofstream_fail e (w_filePath w') (w_xmlBuffer w')
                then (makeError1 ''Failed to write XML data to file'', w', Some (w_xmlBuffer w'))
              else (case fs_exists e (w_filePath w') of
                Inl what \<Rightarrow> (makeError1 (''Filesystem error writing file: '' @ what), w',
                              Some (w_xmlBuffer w'))
              | Inr False \<Rightarrow> (makeError1 ''Output file was not created'', w',
                               Some (w_xmlBuffer w'))
              | Inr True \<Rightarrow> (makeSuccess (length (w_xmlBuffer w')), w',
                              Some (w_xmlBuffer w'))))"

text \<open>
  A caller that passes a list of tracks to \<open>writeTrack\<close> one after the other, whatever
  each call returns: the results in call order and the writer afterwards.
\<close>

fun writeTracks :: "ProjectWriterImpl \<Rightarrow> TrackInfo list \<Rightarrow> nat Result list \<times> ProjectWriterImpl" where
  "writeTracks w [] = ([], w)"
| "writeTracks w (t # ts) =
     (let (res, w') = writeTrack w t;
          (rs, w'') = writeTracks w' ts
      in (res # rs, w''))"

section \<open>Data access engine (DataAccessEngineImpl)\<close>

definition loadClips :: "env \<Rightarrow> string \<Rightarrow> string \<Rightarrow> ClipInfo list Result" where
  "loadClips e path trackId =
     (if path = [] then makeError1 ''Path cannot be empty''
      else if trackId = [] then makeError1 ''Track ID cannot be empty''
      else case fs_exists e path of
        Inl what \<Rightarrow> makeError1 (''Filesystem error loading clips: '' @ what)
      | Inr ex \<Rightarrow>
          if \<not> ex then makeError1 (''File does not exist: '' @ path)
          else (case fs_is_regular_file e path of
            Inl what \<Rightarrow> makeError1 (''Filesystem error loading clips: '' @ what)
          | Inr reg \<Rightarrow>
              if \<not> reg then makeError1 (''Path is not a regular file: '' @ path)
              else if length trackId > 256
                then makeError1 (''Track ID too long: '' @ to_string_nat (length trackId)
                                 @ '' characters'')
              else makeSuccess []))"

text \<open>What \<open>saveProject\<close> streams to the file; tracks and clips are not written.\<close>

definition saveProject_content :: "env \<Rightarrow> ProjectInfo \<Rightarrow> string" where
  \<open>saveProject_content e project =
     ''<?xml version="1.0" encoding="UTF-8"?>\<newline>''
     @ ''<Project title="'' @ title project @ ''" tempo="''
     @ ostream_double e (tempo project) @ ''">\<newline>''
     @ ''  <!-- Generated by DAWProject Data Access Engine -->\<newline>''
     @ ''</Project>\<newline>''\<close>

text \<open>
  \<open>saveProject\<close> returns its result and, when it opened the file, the content it
  streamed to it.
\<close>

definition saveProject ::
  "env \<Rightarrow> ProjectInfo \<Rightarrow> TrackInfo list \<Rightarrow> ClipInfo list \<Rightarrow> string
     \<Rightarrow> nat Result \<times> string option" where
  "saveProject e project tracks clips path =
     (if path = [] then (makeError1 ''Output path cannot be empty'', None)
      else if title project = [] then (makeError1 ''Project title cannot be empty'', None)
      else if double_le (tempo project) (Finite 0) \<or> double_greater (tempo project) (Finite 999)
        then (makeError1 (''Invalid tempo: '' @ to_string_double e (tempo project)), None)
      else case fs_weakly_canonical e path of
        Inl what \<Rightarrow> (makeError1 (''Filesystem error saving project: '' @ what), None)
      | Inr canonicalPath \<Rightarrow>
          let parentPath = parent_path canonicalPath
          in if str_contains parentPath ''..''
               then (makeError1 ''Invalid path: contains parent directory references'', None)
             else if extension path \<noteq> ''.dawproject'' \<and> extension path \<noteq> ''.xml''
               then (makeError1 (''Invalid file extension: '' @ extension path
                                 @ ''. Expected .dawproject or .xml''), None)
             else (case fs_create_directories e parentPath of
               Some message \<Rightarrow>
                 (makeError1 (''Failed to create directories: '' @ message), None)
             | None \<Rightarrow>
                 if \<not> ofstream_trunc_is_open e path
                   then (makeError1 (''Failed to create file: '' @ path), None)
                 else if ofstream_fail e path (saveProject_content e project)
                   then (makeError1 ''Failed to write project data to file'',
                         Some (saveProject_content e project))
                 else (case fs_exists e path of
                   Inl what \<Rightarrow> (makeError1 (''Filesystem error saving project: '' @ what),
                                 Some (saveProject_content e project))
                 | Inr False \<Rightarrow> (makeError1 ''File was not created successfully'',
                                  Some (saveProject_content e project))
                 | Inr True \<Rightarrow>
                     (case fs_file_size e path of
                        Inl what \<Rightarrow>
                          (makeError1 (''Filesystem error saving project: '' @ what),
                           Some (saveProject_content e project))
                      | Inr fileSize \<Rightarrow>
                          (makeSuccess fileSize, Some (saveProject_content e project))))))"

definition createWriter :: "env \<Rightarrow> string \<Rightarrow> ProjectWriterImpl option" where
  "createWriter e path =
     (if path = [] then None
      else if extension path \<noteq> ''.dawproject'' \<and> extension path \<noteq> ''.xml'' then None
      else let parentPath = parent_path path;
               made = (case ProjectWriterImpl_ctor path of Inl _ \<Rightarrow> None | Inr w \<Rightarrow> Some w)
           in if parentPath = [] then made
              else (case fs_exists e parentPath of
                Inl _ \<Rightarrow> None
              | Inr True \<Rightarrow> made
              | Inr False \<Rightarrow>
                  (case fs_create_directories e parentPath of
                     Some _ \<Rightarrow> None
                   | None \<Rightarrow> made)))"

section \<open>Sample environments and inputs\<close>

text \<open>
  Number formatting in the C locale. \<open>printf_f\<close> is \<open>std::to_string\<close> on a double, the
  \<open>%f\<close> conversion: six decimals, the exact value rounded to nearest with ties to
  even. \<open>ostream_g\<close> is \<open>operator<<\<close> with the stream's default flags, the \<open>%g\<close>
  conversion with six significant digits: a double with an integer value below
  \<open>10^6\<close> in magnitude prints as that integer. The sample calls stream only such
  values; for the others \<open>%g\<close> drops trailing zeros or uses an exponent, which is not
  rendered here (the fixed notation stands in).
\<close>

definition round_half_even :: "real \<Rightarrow> nat" where
  "round_half_even x =
     (let lower = nat \<lfloor>x\<rfloor>; rest = x - real lower
      in if rest > 1 / 2 \<or> (rest = 1 / 2 \<and> odd lower) then Suc lower else lower)"

definition zero_pad :: "nat \<Rightarrow> string \<Rightarrow> string" where
  "zero_pad k s = replicate (k - length s) (CHR ''0'') @ s"

fun printf_f :: "double \<Rightarrow> string" where
  "printf_f NaN = ''nan''"
| "printf_f PosInf = ''inf''"
| "printf_f NegInf = ''-inf''"
| "printf_f (Finite r) =
     (let q = round_half_even (\<bar>r\<bar> * 1000000)
      in (if r < 0 then ''-'' else [])
         @ to_string_nat (q div 1000000) @ ''.'' @ zero_pad 6 (to_string_nat (q mod 1000000)))"

fun ostream_g :: "double \<Rightarrow> string" where
  "ostream_g (Finite r) =
     (if r = real_of_int \<lfloor>r\<rfloor> \<and> \<bar>r\<bar> < 1000000
      then (if r < 0 then ''-'' else []) @ to_string_nat (nat \<lfloor>\<bar>r\<bar>\<rfloor>)
      else printf_f (Finite r))"
| "ostream_g d = printf_f d"

declare printf_f.simps [simp del] ostream_g.simps [simp del]

text \<open>
  A POSIX system with working directory \<open>/home/user/work\<close> and no symbolic links. The
  files are listed with the sizes they have once the sample calls below have run:
  \<open>in.dawproject\<close> and the 200 MiB \<open>big.dawproject\<close> are there from the start,
  \<open>../evil.xml\<close> and \<open>/home/user/work/out.xml\<close> are what the two sample saves write.
  All files are regular and readable and all directories writable. A path that
  exists resolves to its absolute form, \<open>../evil.xml\<close> to \<open>/home/user/evil.xml\<close>, and a
  relative name that does not exist to itself. Creating the directories of the empty
  path fails; the directories of every other path asked for exist already.
\<close>

definition sample_files :: "(string \<times> nat) list" where
  "sample_files =
     [(''in.dawproject'', 136), (''big.dawproject'', 209715200),
      (''../evil.xml'', 136), (''/home/user/work/out.xml'', 140)]"

definition sample_directories :: "string list" where
  "sample_directories = [''/'', ''/home'', ''/home/user'', ''/home/user/work'']"

definition sample_exists :: "string \<Rightarrow> string + bool" where
  "sample_exists p = Inr (p \<in> set (map fst sample_files) \<or> p \<in> set sample_directories)"

definition sample_is_regular_file :: "string \<Rightarrow> string + bool" where
  "sample_is_regular_file p = Inr (p \<in> set (map fst sample_files))"

definition sample_file_size :: "string \<Rightarrow> string + nat" where
  "sample_file_size p =
     (case map_of sample_files p of
        Some n \<Rightarrow> Inr n
      | None \<Rightarrow> Inl ''filesystem error: cannot get file size: No such file or directory'')"

definition sample_weakly_canonical :: "string \<Rightarrow> string + string" where
  "sample_weakly_canonical p =
     (if p = ''../evil.xml'' then Inr ''/home/user/evil.xml''
      else if p \<in> set (map fst sample_files) \<and> take 1 p \<noteq> ''/''
        then Inr (''/home/user/work/'' @ p)
      else Inr p)"

definition sample_create_directories :: "string \<Rightarrow> string option" where
  "sample_create_directories p = (if p = [] then Some ''Invalid argument'' else None)"

definition sample_env :: env where
  "sample_env =
     \<lparr>fs_exists = sample_exists,
      fs_is_regular_file = sample_is_regular_file,
      fs_file_size = sample_file_size,
      fs_weakly_canonical = sample_weakly_canonical,
      fs_create_directories = sample_create_directories,
      ifstream_good = (\<lambda>p. p \<in> set (map fst sample_files)),
      ofstream_trunc_is_open = (\<lambda>p. p \<noteq> []),
      ofstream_app_good = (\<lambda>p. p \<noteq> []),
      ofstream_fail = (\<lambda>p c. False),
      to_string_double = printf_f,
      ostream_double = ostream_g,
      system_clock_now = (\<lambda>k. 0),
      indeterminate_bool = (\<lambda>k. False),
      indeterminate_int = 0,
      indeterminate_double = Finite 0\<rparr>"

definition sample_project :: ProjectInfo where
  "sample_project =
     \<lparr>title = ''T'', artist = [], album = [], genre = [], tempo = Finite 120,
      timeSignature = ''4/4'', key = [], created = 0, modified = 0\<rparr>"

definition sample_reader :: ProjectReaderImpl where
  "sample_reader =
     \<lparr>r_filePath = ''in.dawproject'', r_isOpen = False,
      r_projectInfo = \<lparr>title = [], artist = [], album = [], genre = [], tempo = Finite 0,
                        timeSignature = [], key = [], created = 0, modified = 0\<rparr>,
      r_tracks = [], r_clips = [], r_currentTrackIndex = 0, r_currentClipIndex = 0\<rparr>"

definition sample_writer :: ProjectWriterImpl where
  "sample_writer = \<lparr>w_filePath = ''out.dawproject'', w_isOpen = False, w_xmlBuffer = []\<rparr>"

definition small_track :: TrackInfo where
  "small_track =
     \<lparr>track_id = ''t1'', track_name = ''Lead'', track_type = Audio, track_color = [],
      track_volume = Finite 1, track_pan = Finite 0, track_muted = False,
      track_soloed = False, track_orderIndex = 0, track_instrumentId = None,
      track_audioFile = None\<rparr>"

definition huge_track :: TrackInfo where
  "huge_track = small_track\<lparr>track_id := ''t2'',
                              track_name := replicate buffer_limit (CHR ''x'')\<rparr>"

definition sample_clip :: ClipInfo where
  "sample_clip =
     \<lparr>clip_id = ''c1'', clip_name = ''Intro'', clip_trackId = ''t1'',
      clip_startTime = Finite 0, clip_duration = Finite 1, clip_playbackRate = Finite 1,
      clip_fadeInTime = Finite 0, clip_fadeOutTime = Finite 0, clip_contentId = None,
      clip_audioFile = None\<rparr>"

definition quoted_text :: string where
  \<open>quoted_text = ''a"b<c''\<close>

definition sample_result :: ValidationResult where
  "sample_result =
     \<lparr>isValid = False, errors = [''e1'', ''e2''], warnings = [''w1''], context = ''file''\<rparr>"

section \<open>Properties of the validation rules and envelopes\<close>

lemma double_greater_zero_iff:
  "double_greater d (Finite 0) \<longleftrightarrow> d = PosInf \<or> (\<exists>r. d = Finite r \<and> 0 < r)"
  by (cases d) (simp_all add: double_greater_def)

text \<open>
  Claim C6. For every ProjectInfo \<open>p\<close>, \<open>p.isValid()\<close> is true exactly when the title is
  non-empty and the tempo is greater than zero (in the double comparison, which NaN
  fails and positive infinity passes).
\<close>

theorem C6_ProjectInfo_isValid_iff:
  "ProjectInfo_isValid p = (title p \<noteq> [] \<and> double_greater (tempo p) (Finite 0))
   \<and> ProjectInfo_isValid p
       = (title p \<noteq> [] \<and> (tempo p = PosInf \<or> (\<exists>r. tempo p = Finite r \<and> 0 < r)))"
  by (simp add: ProjectInfo_isValid_def double_greater_zero_iff)

text \<open>
  Claim C7 speaks of every pair of results. It fails when the argument is the receiver
  itself: \<open>a.merge(a)\<close> has no defined result, so it does not leave \<open>a\<close> with its errors
  and warnings doubled.
\<close>

theorem C7_self_merge_counterexample:
  "merge sample_result Receiver = None
   \<and> merge sample_result Receiver
       \<noteq> Some (sample_result\<lparr>errors := errors sample_result @ errors sample_result,
                               warnings := warnings sample_result @ warnings sample_result\<rparr>)"
  by simp

text \<open>
  Claim C7, amended. For every result \<open>a\<close> and every other result \<open>b\<close> (an object that is
  not \<open>a\<close> itself), after \<open>a.merge(b)\<close> the error list of \<open>a\<close> is its old errors followed
  by those of \<open>b\<close>, likewise the warnings (so the counts add up), the validity flag is
  the conjunction of the two earlier flags, and the context label is kept.
\<close>

theorem C7_merge_another:
  "merge a (Another b)
     = Some (a\<lparr>errors := errors a @ errors b, warnings := warnings a @ warnings b,
               isValid := isValid a \<and> isValid b\<rparr>)
   \<and> map_option (\<lambda>r. length (errors r)) (merge a (Another b))
       = Some (length (errors a) + length (errors b))
   \<and> map_option (\<lambda>r. length (warnings r)) (merge a (Another b))
       = Some (length (warnings a) + length (warnings b))
   \<and> map_option isValid (merge a (Another b)) = Some (isValid a \<and> isValid b)
   \<and> map_option context (merge a (Another b)) = Some (context a)"
  by (simp add: Let_def)

text \<open>
  Claim C8. \<open>makeSuccess(v)\<close> has the success flag set, carries \<open>v\<close>, an empty message and
  code 0; \<open>makeError(msg, code)\<close> has the flag cleared, carries the value-initialised
  \<open>T{}\<close>, the message and the code; the one-argument form uses code -1.
\<close>

theorem C8_Result_factories:
  "success (makeSuccess v) = True
   \<and> value (makeSuccess v) = v
   \<and> errorMessage (makeSuccess v) = []
   \<and> errorCode (makeSuccess v) = 0
   \<and> success (makeError msg code :: ('a::default) Result) = False
   \<and> value (makeError msg code :: ('a::default) Result) = default
   \<and> errorMessage (makeError msg code :: ('a::default) Result) = msg
   \<and> errorCode (makeError msg code :: ('a::default) Result) = code
   \<and> sint (errorCode (makeError1 msg :: ('a::default) Result)) = - 1"
  by (simp add: makeSuccess_def makeError_def)

text \<open>
  Claim C10. A ProjectInfo with a non-empty title, a tempo greater than zero and an
  empty time signature is valid for \<open>isValid()\<close>, while \<open>getValidationErrors()\<close> returns
  exactly one message, about the time signature: validity is not the same as an empty
  error list.
\<close>

theorem C10_isValid_not_errors_empty:
  assumes "title p \<noteq> []" and "double_greater (tempo p) (Finite 0)"
    and "timeSignature p = []"
  shows "ProjectInfo_isValid p
         \<and> getValidationErrors p = [''Time signature cannot be empty'']
         \<and> getValidationErrors p \<noteq> []"
proof -
  from assms(2) have "\<not> double_le (tempo p) (Finite 0)"
    by (cases "tempo p") (simp_all add: double_greater_def)
  with assms show ?thesis
    by (simp add: ProjectInfo_isValid_def getValidationErrors_def)
qed

theorem C10_isValid_not_errors_empty_witness:
  "ProjectInfo_isValid
     \<lparr>title = ''Test Project'', artist = [], album = [], genre = [], tempo = Finite 120,
      timeSignature = [], key = [], created = 0, modified = 0\<rparr>
   \<and> getValidationErrors
     \<lparr>title = ''Test Project'', artist = [], album = [], genre = [], tempo = Finite 120,
      timeSignature = [], key = [], created = 0, modified = 0\<rparr> \<noteq> []"
  using C10_isValid_not_errors_empty
    [of "\<lparr>title = ''Test Project'', artist = [], album = [], genre = [], tempo = Finite 120,
      timeSignature = [], key = [], created = 0, modified = 0\<rparr>"]
  by (simp add: double_greater_def)

section \<open>Properties of the streaming reader\<close>

lemma readNextTrack_ok:
  assumes "r_isOpen r" "r_currentTrackIndex r < length (r_tracks r)"
    "track_id (r_tracks r ! r_currentTrackIndex r) \<noteq> []"
  shows "readNextTrack r = (makeSuccess (r_tracks r ! r_currentTrackIndex r),
                            r\<lparr>r_currentTrackIndex := Suc (r_currentTrackIndex r)\<rparr>)"
  using assms by (auto simp: readNextTrack_def Let_def)

lemma readNextTrack_end:
  assumes "r_isOpen r" "r_currentTrackIndex r \<ge> length (r_tracks r)"
  shows "readNextTrack r = (makeError1 ''No more tracks available'', r)"
  using assms by (simp add: readNextTrack_def)

lemma readTracks_prefix:
  assumes "r_isOpen r" "\<forall>t \<in> set (r_tracks r). track_id t \<noteq> []"
    "r_currentTrackIndex r + k \<le> length (r_tracks r)"
  shows "readTracks k r =
           (map makeSuccess (take k (drop (r_currentTrackIndex r) (r_tracks r))),
            r\<lparr>r_currentTrackIndex := r_currentTrackIndex r + k\<rparr>)"
  using assms
proof (induction k arbitrary: r)
  case 0
  then show ?case by simp
next
  case (Suc k)
  let ?i = "r_currentTrackIndex r"
  let ?r' = "r\<lparr>r_currentTrackIndex := Suc ?i\<rparr>"
  from Suc.prems have lt: "?i < length (r_tracks r)" by simp
  with Suc.prems have idok: "track_id (r_tracks r ! ?i) \<noteq> []" by simp
  have step: "readNextTrack r = (makeSuccess (r_tracks r ! ?i), ?r')"
    using Suc.prems(1) lt idok by (rule readNextTrack_ok)
  have rest: "readTracks k ?r' =
                (map makeSuccess (take k (drop (Suc ?i) (r_tracks r))),
                 ?r'\<lparr>r_currentTrackIndex := Suc ?i + k\<rparr>)"
    using Suc.IH [of ?r'] Suc.prems by simp
  have "take (Suc k) (drop ?i (r_tracks r))
          = r_tracks r ! ?i # take k (drop (Suc ?i) (r_tracks r))"
    using lt by (simp add: Cons_nth_drop_Suc [symmetric])
  then show ?case using step rest by simp
qed


text \<open>
  Claim C4. Take a reader that is open with its track cursor at zero, as \<open>open()\<close> leaves
  it, over a loaded list of \<open>N\<close> tracks whose ids are all non-empty. The first \<open>N\<close> calls
  of \<open>readNextTrack()\<close> succeed and return the tracks in list order; after \<open>k \<le> N\<close> calls
  the cursor is \<open>k\<close> and \<open>hasMoreTracks()\<close> holds exactly when \<open>k < N\<close>, so it is false
  after the \<open>N\<close>-th call; the call after that returns the error "No more tracks
  available" and leaves the reader as it is.
\<close>

theorem C4_readNextTrack_sequence:
  assumes "r_isOpen r" and "r_currentTrackIndex r = 0"
    and "\<forall>t \<in> set (r_tracks r). track_id t \<noteq> []"
  shows "fst (readTracks (length (r_tracks r)) r) = map makeSuccess (r_tracks r)
    \<and> (\<forall>k \<le> length (r_tracks r).
          r_currentTrackIndex (snd (readTracks k r)) = k
          \<and> hasMoreTracks (snd (readTracks k r)) = (k < length (r_tracks r)))
    \<and> readNextTrack (snd (readTracks (length (r_tracks r)) r))
        = (makeError1 ''No more tracks available'', snd (readTracks (length (r_tracks r)) r))
    \<and> fst (readTracks (Suc (length (r_tracks r))) r)
        = map makeSuccess (r_tracks r) @ [makeError1 ''No more tracks available'']"
proof -
  let ?N = "length (r_tracks r)"
  have run: "readTracks k r
               = (map makeSuccess (take k (r_tracks r)), r\<lparr>r_currentTrackIndex := k\<rparr>)"
    if "k \<le> ?N" for k
    using readTracks_prefix [of r k] assms that by simp
  have all: "fst (readTracks ?N r) = map makeSuccess (r_tracks r)"
    by (simp add: run)
  have cursor: "\<forall>k \<le> ?N. r_currentTrackIndex (snd (readTracks k r)) = k
                  \<and> hasMoreTracks (snd (readTracks k r)) = (k < ?N)"
    by (simp add: run hasMoreTracks_def)
  have last: "readNextTrack (snd (readTracks ?N r))
                = (makeError1 ''No more tracks available'', snd (readTracks ?N r))"
    using assms(1) by (simp add: run readNextTrack_end)
  have unfold: "readTracks (Suc k) r
                  = (fst (readTracks k r) @ [fst (readNextTrack (snd (readTracks k r)))],
                     snd (readNextTrack (snd (readTracks k r))))" for k r
    by (induction k arbitrary: r) (simp_all add: split_beta Let_def)
  have "fst (readTracks (Suc ?N) r)
          = map makeSuccess (r_tracks r) @ [makeError1 ''No more tracks available'']"
    by (simp only: unfold all last fst_conv)
  with all cursor last show ?thesis by blast
qed

text \<open>
  \<open>open()\<close> does not touch the cursors: they are zero after a successful \<open>open()\<close>
  because the constructor and \<open>close()\<close> set them to zero and only the read calls of an
  open reader advance them.
\<close>

lemma reader_open_from_closed:
  assumes "\<not> r_isOpen r0" and "reader_open e r0 = (True, r)"
  shows "r_isOpen r" and "r_tracks r = [sample_track e]" and "r_clips r = []"
    and "r_currentTrackIndex r = r_currentTrackIndex r0"
    and "r_currentClipIndex r = r_currentClipIndex r0"
    and "\<forall>t \<in> set (r_tracks r). track_id t \<noteq> []"
  using assms
  by (auto simp: reader_open_def sample_track_def Let_def split: sum.splits if_splits)

lemma fresh_reader_open:
  assumes "ProjectReaderImpl_ctor e path = Inr r0" and "reader_open e r0 = (True, r)"
  shows "r_isOpen r \<and> r_currentTrackIndex r = 0 \<and> r_currentClipIndex r = 0
         \<and> r_tracks r = [sample_track e]"
proof -
  from assms(1) have "\<not> r_isOpen r0" "r_currentTrackIndex r0 = 0" "r_currentClipIndex r0 = 0"
    by (auto simp: ProjectReaderImpl_ctor_def split: if_splits)
  with reader_open_from_closed [OF _ assms(2)] show ?thesis by simp
qed

lemma reopened_reader:
  assumes "reader_open e (reader_close r1) = (True, r)"
  shows "r_isOpen r \<and> r_currentTrackIndex r = 0 \<and> r_currentClipIndex r = 0
         \<and> r_tracks r = [sample_track e]"
proof -
  have "\<not> r_isOpen (reader_close r1)" by (simp add: reader_close_def)
  from reader_open_from_closed [OF this assms] show ?thesis
    by (simp add: reader_close_def)
qed

lemma sample_reader_ctor: "ProjectReaderImpl_ctor sample_env ''in.dawproject'' = Inr sample_reader"
  by (simp add: ProjectReaderImpl_ctor_def sample_reader_def sample_env_def)

lemma sample_reader_open:
  "fst (reader_open sample_env sample_reader)"
  "r_isOpen (snd (reader_open sample_env sample_reader))"
  "r_tracks (snd (reader_open sample_env sample_reader)) = [sample_track sample_env]"
  "r_clips (snd (reader_open sample_env sample_reader)) = []"
  "r_currentTrackIndex (snd (reader_open sample_env sample_reader)) = 0"
  by (simp_all add: reader_open_def sample_reader_def sample_env_def sample_files_def
      sample_exists_def sample_is_regular_file_def Let_def)

theorem C4_readNextTrack_sequence_witness:
  "fst (reader_open sample_env sample_reader)
   \<and> fst (readTracks (Suc 0) (snd (reader_open sample_env sample_reader)))
       = [makeSuccess (sample_track sample_env)]
   \<and> \<not> hasMoreTracks (snd (readTracks (Suc 0) (snd (reader_open sample_env sample_reader))))
   \<and> fst (readTracks (Suc (Suc 0)) (snd (reader_open sample_env sample_reader)))
       = [makeSuccess (sample_track sample_env), makeError1 ''No more tracks available'']"
proof -
  let ?r = "snd (reader_open sample_env sample_reader)"
  have ids: "\<forall>t \<in> set (r_tracks ?r). track_id t \<noteq> []"
    by (simp add: sample_reader_open sample_track_def)
  have len: "length (r_tracks ?r) = Suc 0"
    by (simp add: sample_reader_open)
  note run = C4_readNextTrack_sequence
    [OF sample_reader_open(2) sample_reader_open(5) ids, unfolded len]
  from run have "\<not> hasMoreTracks (snd (readTracks (Suc 0) ?r))"
    by blast
  with run show ?thesis
    by (simp del: readTracks.simps add: sample_reader_open)
qed

text \<open>
  Claim C9. Closing a reader that is open over at least one loaded track keeps the
  loaded lists and resets both cursors to zero. So \<open>hasMoreTracks()\<close> is true on the
  closed reader and \<open>hasMoreClips()\<close> tells whether any clip is loaded, while
  \<open>readNextTrack()\<close>, \<open>readNextClip()\<close> and \<open>readProjectInfo()\<close> all return the error
  "Reader not open" and leave the reader unchanged, so every later call does too.
\<close>

theorem C9_closed_reader:
  assumes "r_isOpen r" and "r_tracks r \<noteq> []"
  shows "\<not> r_isOpen (reader_close r)
    \<and> r_tracks (reader_close r) = r_tracks r
    \<and> r_clips (reader_close r) = r_clips r
    \<and> r_currentTrackIndex (reader_close r) = 0
    \<and> r_currentClipIndex (reader_close r) = 0
    \<and> hasMoreTracks (reader_close r)
    \<and> hasMoreClips (reader_close r) = (r_clips r \<noteq> [])
    \<and> readNextTrack (reader_close r) = (makeError1 ''Reader not open'', reader_close r)
    \<and> readNextClip e (reader_close r) = (makeError1 ''Reader not open'', reader_close r)
    \<and> readProjectInfo e (reader_close r) = makeError1 ''Reader not open''"
  using assms
  by (simp add: reader_close_def hasMoreTracks_def hasMoreClips_def readNextTrack_def
      readNextClip_def readProjectInfo_def)

theorem C9_closed_reader_witness:
  "fst (reader_open sample_env sample_reader)
   \<and> hasMoreTracks (reader_close (snd (reader_open sample_env sample_reader)))
   \<and> \<not> hasMoreClips (reader_close (snd (reader_open sample_env sample_reader)))
   \<and> \<not> success (fst (readNextTrack (reader_close (snd (reader_open sample_env sample_reader)))))
   \<and> \<not> success (fst (readNextClip sample_env
                        (reader_close (snd (reader_open sample_env sample_reader)))))
   \<and> \<not> success (readProjectInfo sample_env
                   (reader_close (snd (reader_open sample_env sample_reader))))"
proof -
  let ?r = "snd (reader_open sample_env sample_reader)"
  have ne: "r_tracks ?r \<noteq> []" by (simp add: sample_reader_open)
  from C9_closed_reader [OF sample_reader_open(2) ne, of sample_env]
  show ?thesis
    by (simp add: sample_reader_open makeError_def)
qed

section \<open>Properties of the streaming writer\<close>

lemma writeTrack_isOpen: "w_isOpen (snd (writeTrack w t)) = w_isOpen w"
  by (simp add: writeTrack_def)

lemma writeTracks_isOpen: "w_isOpen (snd (writeTracks w ts)) = w_isOpen w"
proof (induction ts arbitrary: w)
  case Nil
  show ?case by simp
next
  case (Cons t ts)
  have "w_isOpen (snd (writeTracks (snd (writeTrack w t)) ts)) = w_isOpen (snd (writeTrack w t))"
    by (rule Cons.IH)
  then show ?case by (simp add: split_beta writeTrack_isOpen)
qed

lemma writeTracks_append:
  "writeTracks w (xs @ ys)
     = (fst (writeTracks w xs) @ fst (writeTracks (snd (writeTracks w xs)) ys),
        snd (writeTracks (snd (writeTracks w xs)) ys))"
  by (induction xs arbitrary: w) (simp_all add: split_beta)

lemma writeTracks_length: "length (fst (writeTracks w ts)) = length ts"
  by (induction ts arbitrary: w) (simp_all add: split_beta)

lemma writeTracks_call:
  assumes "i < length ts"
  shows "fst (writeTracks w ts) ! i = fst (writeTrack (snd (writeTracks w (take i ts))) (ts ! i))"
    and "snd (writeTracks w (take (Suc i) ts))
           = snd (writeTrack (snd (writeTracks w (take i ts))) (ts ! i))"
proof -
  from assms have split: "ts = take i ts @ ts ! i # drop (Suc i) ts"
    by (simp add: id_take_nth_drop)
  have len: "length (fst (writeTracks w (take i ts))) = i"
    using assms by (simp add: writeTracks_length)
  have "fst (writeTracks w ts) ! i
          = fst (writeTracks w (take i ts @ ts ! i # drop (Suc i) ts)) ! i"
    using split by simp
  also have "\<dots> = fst (writeTrack (snd (writeTracks w (take i ts))) (ts ! i))"
    by (simp add: writeTracks_append nth_append len split_beta)
  finally show "fst (writeTracks w ts) ! i
                  = fst (writeTrack (snd (writeTracks w (take i ts))) (ts ! i))" .
  from assms have "take (Suc i) ts = take i ts @ [ts ! i]"
    by (simp add: take_Suc_conv_app_nth)
  then show "snd (writeTracks w (take (Suc i) ts))
               = snd (writeTrack (snd (writeTracks w (take i ts))) (ts ! i))"
    by (simp add: writeTracks_append split_beta)
qed

lemma writeTrack_over_limit:
  assumes "w_isOpen w" and "length (w_xmlBuffer w) + length (trackXml t) > buffer_limit"
  shows "\<not> success (fst (writeTrack w t))" and "snd (writeTrack w t) = w"
  using assms by (simp_all add: writeTrack_def makeError_def)

lemma writeTrack_over_limit_message:
  assumes "w_isOpen w" and "length (w_xmlBuffer w) + length (trackXml t) > buffer_limit"
    and "track_id t \<noteq> []" and "track_name t \<noteq> []"
  shows "fst (writeTrack w t) = makeError1 ''XML buffer size limit exceeded''"
  using assms by (simp add: writeTrack_def)

lemma writeTrack_fits:
  assumes "w_isOpen w" and "length (w_xmlBuffer w) + length (trackXml t) \<le> buffer_limit"
    and "track_id t \<noteq> []" and "track_name t \<noteq> []"
  shows "writeTrack w t = (makeSuccess (length (trackXml t)),
                           w\<lparr>w_xmlBuffer := w_xmlBuffer w @ trackXml t\<rparr>)"
  using assms by (simp add: writeTrack_def)

lemma writeTrack_buffer_bounded:
  "length (w_xmlBuffer w) \<le> buffer_limit
     \<Longrightarrow> length (w_xmlBuffer (snd (writeTrack w t))) \<le> buffer_limit"
  by (simp add: writeTrack_def)

lemma writeTracks_buffer_bounded:
  "length (w_xmlBuffer w) \<le> buffer_limit
     \<Longrightarrow> length (w_xmlBuffer (snd (writeTracks w ts))) \<le> buffer_limit"
proof (induction ts arbitrary: w)
  case Nil
  then show ?case by simp
next
  case (Cons t ts)
  from Cons.prems have "length (w_xmlBuffer (snd (writeTrack w t))) \<le> buffer_limit"
    by (rule writeTrack_buffer_bounded)
  then have "length (w_xmlBuffer (snd (writeTracks (snd (writeTrack w t)) ts))) \<le> buffer_limit"
    by (rule Cons.IH)
  then show ?case by (simp add: split_beta)
qed

lemma writer_open_buffer:
  assumes "\<not> w_isOpen w0" and "writer_open e w0 = (True, w)"
  shows "w_isOpen w" and "w_xmlBuffer w = xml_header"
    and "length (w_xmlBuffer w) \<le> buffer_limit"
  using assms
  by (auto simp: writer_open_def Let_def xml_header_def buffer_limit_def
      split: sum.splits if_splits option.splits bool.splits)

lemma writeProjectInfo_fits:
  assumes "w_isOpen w" and "title p \<noteq> []"
    and "\<not> double_le (tempo p) (Finite 0)" and "\<not> double_greater (tempo p) (Finite 999)"
    and "length (artist p) \<le> 256"
    and "length (w_xmlBuffer w) + length (projectXml e p) \<le> buffer_limit"
  shows "writeProjectInfo e w p = (makeSuccess (length (projectXml e p)),
                                   w\<lparr>w_xmlBuffer := w_xmlBuffer w @ projectXml e p\<rparr>)"
  using assms by (simp add: writeProjectInfo_def)

lemma writeClip_fits:
  assumes "w_isOpen w" and "clip_id c \<noteq> []"
    and "\<not> double_less (clip_startTime c) (Finite 0)"
    and "length (w_xmlBuffer w) + length (clipXml e c) \<le> buffer_limit"
  shows "writeClip e w c = (makeSuccess (length (clipXml e c)),
                            w\<lparr>w_xmlBuffer := w_xmlBuffer w @ clipXml e c\<rparr>)"
  using assms by (simp add: writeClip_def)

lemma sample_digits: "to_string_nat 0 = ''0''" "to_string_nat 120 = ''120''"
  by code_simp+

lemma sample_pad: "zero_pad 6 ''0'' = ''000000''"
  by code_simp

lemma sample_formats:
  "printf_f (Finite 0) = ''0.000000''"
  "printf_f (Finite 120) = ''120.000000''"
  "ostream_g (Finite 120) = ''120''"
  by (simp_all add: printf_f.simps ostream_g.simps round_half_even_def
      sample_digits sample_pad)

lemma sample_env_answers:
  "fs_exists sample_env ''in.dawproject'' = Inr True"
  "fs_exists sample_env ''big.dawproject'' = Inr True"
  "fs_exists sample_env ''../evil.xml'' = Inr True"
  "fs_exists sample_env ''/home/user/work/out.xml'' = Inr True"
  "fs_is_regular_file sample_env ''in.dawproject'' = Inr True"
  "fs_is_regular_file sample_env ''big.dawproject'' = Inr True"
  "fs_file_size sample_env ''big.dawproject'' = Inr 209715200"
  "fs_file_size sample_env ''../evil.xml'' = Inr 136"
  "fs_file_size sample_env ''/home/user/work/out.xml'' = Inr 140"
  "fs_weakly_canonical sample_env ''../evil.xml'' = Inr ''/home/user/evil.xml''"
  "fs_weakly_canonical sample_env ''/home/user/work/out.xml'' = Inr ''/home/user/work/out.xml''"
  "fs_create_directories sample_env ''/home/user'' = None"
  "fs_create_directories sample_env ''/home/user/work'' = None"
  "ifstream_good sample_env ''in.dawproject''"
  "ifstream_good sample_env ''big.dawproject''"
  "ofstream_trunc_is_open sample_env ''../evil.xml''"
  "ofstream_trunc_is_open sample_env ''/home/user/work/out.xml''"
  "ofstream_app_good sample_env ''out.dawproject''"
  "\<not> ofstream_fail sample_env p c"
  "to_string_double sample_env (Finite 0) = ''0.000000''"
  "to_string_double sample_env (Finite 120) = ''120.000000''"
  "ostream_double sample_env (Finite 120) = ''120''"
  by (simp_all add: sample_env_def sample_files_def sample_directories_def sample_exists_def
      sample_is_regular_file_def sample_file_size_def sample_weakly_canonical_def
      sample_create_directories_def sample_formats)

text \<open>
  Claim C3. Take an open writer and any list of tracks passed to \<open>writeTrack\<close> one
  after the other. If, at the \<open>i\<close>-th call, the buffer left by the earlier calls plus
  the serialized fragment of the \<open>i\<close>-th track is longer than the 10 MiB ceiling, then
  that call returns an error Result and the writer after it is the writer before it:
  the buffer has the same contents and the same size, the fragment is not appended.
\<close>

theorem C3_writeTrack_buffer_ceiling:
  assumes "w_isOpen w" and "i < length ts"
    and "length (w_xmlBuffer (snd (writeTracks w (take i ts)))) + length (trackXml (ts ! i))
           > buffer_limit"
  shows "\<not> success (fst (writeTracks w ts) ! i)
    \<and> snd (writeTracks w (take (Suc i) ts)) = snd (writeTracks w (take i ts))
    \<and> w_xmlBuffer (snd (writeTracks w (take (Suc i) ts)))
        = w_xmlBuffer (snd (writeTracks w (take i ts)))
    \<and> length (w_xmlBuffer (snd (writeTracks w (take (Suc i) ts))))
        = length (w_xmlBuffer (snd (writeTracks w (take i ts))))"
proof -
  let ?before = "snd (writeTracks w (take i ts))"
  have "w_isOpen ?before"
    using assms(1) by (simp add: writeTracks_isOpen)
  then have "\<not> success (fst (writeTrack ?before (ts ! i)))"
    and "snd (writeTrack ?before (ts ! i)) = ?before"
    using assms(3) by (rule writeTrack_over_limit)+
  then show ?thesis
    using assms(2) by (simp add: writeTracks_call)
qed

lemma sample_writer_open:
  "writer_open sample_env sample_writer
     = (True, sample_writer\<lparr>w_isOpen := True, w_xmlBuffer := xml_header\<rparr>)"
  by (simp add: writer_open_def sample_writer_def sample_env_def parent_path_def Let_def)


lemma sample_writer_opened:
  "fst (writer_open sample_env sample_writer)"
  "w_isOpen (snd (writer_open sample_env sample_writer))"
  "w_xmlBuffer (snd (writer_open sample_env sample_writer)) = xml_header"
  by (simp_all add: sample_writer_open)

theorem C3_writeTrack_buffer_ceiling_witness:
  "fst (writer_open sample_env sample_writer)
   \<and> success (fst (writeTracks (snd (writer_open sample_env sample_writer))
                    [small_track, huge_track]) ! 0)
   \<and> \<not> success (fst (writeTracks (snd (writer_open sample_env sample_writer))
                      [small_track, huge_track]) ! 1)
   \<and> w_xmlBuffer (snd (writeTracks (snd (writer_open sample_env sample_writer))
                         [small_track, huge_track]))
       = xml_header @ trackXml small_track"
proof -
  let ?w = "snd (writer_open sample_env sample_writer)"
  let ?ts = "[small_track, huge_track]"
  have first: "writeTrack ?w small_track
                 = (makeSuccess (length (trackXml small_track)),
                    ?w\<lparr>w_xmlBuffer := xml_header @ trackXml small_track\<rparr>)"
    by (simp add: writeTrack_def sample_writer_open small_track_def trackXml_def
        xml_header_def buffer_limit_def)
  have big: "length (trackXml huge_track) > buffer_limit"
    by (simp add: trackXml_def huge_track_def)
  have over: "length (w_xmlBuffer (snd (writeTracks ?w (take 1 ?ts))))
                + length (trackXml (?ts ! 1)) > buffer_limit"
    using big by (simp add: first)
  have i: "(1::nat) < length ?ts" by simp
  from C3_writeTrack_buffer_ceiling [OF sample_writer_opened(2) i over]
  have "\<not> success (fst (writeTracks ?w ?ts) ! 1)"
    and "snd (writeTracks ?w (take (Suc 1) ?ts)) = snd (writeTracks ?w (take 1 ?ts))"
    by blast+
  moreover have "snd (writeTracks ?w (take 1 ?ts))
                   = ?w\<lparr>w_xmlBuffer := xml_header @ trackXml small_track\<rparr>"
    by (simp add: first)
  moreover have "take (Suc 1) ?ts = ?ts" by simp
  moreover have "success (fst (writeTracks ?w ?ts) ! 0)"
    by (simp add: first split_beta makeSuccess_def)
  ultimately show ?thesis
    by (simp del: writeTracks.simps add: sample_writer_opened(1))
qed

lemma saveProject_resolved_parent_passes:
  assumes "fs_weakly_canonical e path = Inr canonicalPath"
    and "\<not> str_contains (parent_path canonicalPath) ''..''"
  shows "errorMessage (fst (saveProject e project tracks clips path))
           \<noteq> ''Invalid path: contains parent directory references''"
  using assms
  by (simp add: saveProject_def makeError_def makeSuccess_def Let_def
      split: sum.split option.split bool.split)

lemma saveProject_succeeds:
  assumes "path \<noteq> []" and "title project \<noteq> []"
    and "\<not> double_le (tempo project) (Finite 0)"
    and "\<not> double_greater (tempo project) (Finite 999)"
    and "fs_weakly_canonical e path = Inr canonicalPath"
    and "\<not> str_contains (parent_path canonicalPath) ''..''"
    and "extension path = ''.xml''"
    and "fs_create_directories e (parent_path canonicalPath) = None"
    and "ofstream_trunc_is_open e path"
    and "\<not> ofstream_fail e path (saveProject_content e project)"
    and "fs_exists e path = Inr True"
    and "fs_file_size e path = Inr fileSize"
  shows "saveProject e project tracks clips path
           = (makeSuccess fileSize, Some (saveProject_content e project))"
  using assms by (simp add: saveProject_def)

text \<open>
  Claim C2 says that free text is escaped in what \<open>writeTrack\<close>, \<open>writeProjectInfo\<close>,
  \<open>writeClip\<close> and \<open>saveProject\<close> emit. The code concatenates the text as it is: with
  the text \<open>a"b<c\<close> as track name, project title or clip id, each call succeeds and
  the emitted attribute holds the double quote and the \<open><\<close> unescaped. The save goes to
  \<open>/home/user/work/out.xml\<close>, whose directory exists, and writes 140 bytes.
\<close>

theorem C2_text_written_verbatim:
  \<open>success (fst (writeTrack (snd (writer_open sample_env sample_writer))
                   (small_track\<lparr>track_name := quoted_text\<rparr>)))
   \<and> w_xmlBuffer (snd (writeTrack (snd (writer_open sample_env sample_writer))
                          (small_track\<lparr>track_name := quoted_text\<rparr>)))
     = xml_header @ ''  <Track id="t1" name="a"b<c"/>\<newline>''
   \<and> success (fst (writeProjectInfo sample_env (snd (writer_open sample_env sample_writer))
                     (sample_project\<lparr>title := quoted_text\<rparr>)))
   \<and> w_xmlBuffer (snd (writeProjectInfo sample_env
                          (snd (writer_open sample_env sample_writer))
                          (sample_project\<lparr>title := quoted_text\<rparr>)))
     = xml_header @ ''  <ProjectInfo title="a"b<c" tempo="120.000000" artist=""/>\<newline>''
   \<and> success (fst (writeClip sample_env (snd (writer_open sample_env sample_writer))
                     (sample_clip\<lparr>clip_id := quoted_text\<rparr>)))
   \<and> w_xmlBuffer (snd (writeClip sample_env (snd (writer_open sample_env sample_writer))
                          (sample_clip\<lparr>clip_id := quoted_text\<rparr>)))
     = xml_header @ ''  <Clip id="a"b<c" start="0.000000"/>\<newline>''
   \<and> saveProject sample_env (sample_project\<lparr>title := quoted_text\<rparr>) [] []
         ''/home/user/work/out.xml''
     = (makeSuccess 140,
        Some (''<?xml version="1.0" encoding="UTF-8"?>\<newline>''
              @ ''<Project title="a"b<c" tempo="120">\<newline>''
              @ ''  <!-- Generated by DAWProject Data Access Engine -->\<newline>''
              @ ''</Project>\<newline>''))
   \<and> length (''<?xml version="1.0" encoding="UTF-8"?>\<newline>''
              @ ''<Project title="a"b<c" tempo="120">\<newline>''
              @ ''  <!-- Generated by DAWProject Data Access Engine -->\<newline>''
              @ ''</Project>\<newline>'') = 140\<close>
proof -
  let ?w = "snd (writer_open sample_env sample_writer)"
  let ?t = "small_track\<lparr>track_name := quoted_text\<rparr>"
  let ?p = "sample_project\<lparr>title := quoted_text\<rparr>"
  let ?c = "sample_clip\<lparr>clip_id := quoted_text\<rparr>"
  have tx: \<open>trackXml ?t = ''  <Track id="t1" name="a"b<c"/>\<newline>''\<close>
    by (simp add: trackXml_def small_track_def quoted_text_def)
  have px: \<open>projectXml sample_env ?p
               = ''  <ProjectInfo title="a"b<c" tempo="120.000000" artist=""/>\<newline>''\<close>
    by (simp add: projectXml_def sample_project_def quoted_text_def sample_env_answers)
  have cx: \<open>clipXml sample_env ?c = ''  <Clip id="a"b<c" start="0.000000"/>\<newline>''\<close>
    by (simp add: clipXml_def sample_clip_def quoted_text_def sample_env_answers)
  have sx: \<open>saveProject_content sample_env ?p
               = ''<?xml version="1.0" encoding="UTF-8"?>\<newline>''
                 @ ''<Project title="a"b<c" tempo="120">\<newline>''
                 @ ''  <!-- Generated by DAWProject Data Access Engine -->\<newline>''
                 @ ''</Project>\<newline>''\<close>
    by (simp add: saveProject_content_def sample_project_def quoted_text_def
        sample_env_answers)
  have track: "writeTrack ?w ?t
                 = (makeSuccess (length (trackXml ?t)),
                    ?w\<lparr>w_xmlBuffer := w_xmlBuffer ?w @ trackXml ?t\<rparr>)"
    by (rule writeTrack_fits)
      (simp_all add: sample_writer_opened tx xml_header_def buffer_limit_def,
       simp_all add: small_track_def quoted_text_def)
  have info: "writeProjectInfo sample_env ?w ?p
                = (makeSuccess (length (projectXml sample_env ?p)),
                   ?w\<lparr>w_xmlBuffer := w_xmlBuffer ?w @ projectXml sample_env ?p\<rparr>)"
    by (rule writeProjectInfo_fits)
      (simp_all add: sample_writer_opened px xml_header_def buffer_limit_def,
       simp_all add: sample_project_def quoted_text_def double_greater_def)
  have clip: "writeClip sample_env ?w ?c
                = (makeSuccess (length (clipXml sample_env ?c)),
                   ?w\<lparr>w_xmlBuffer := w_xmlBuffer ?w @ clipXml sample_env ?c\<rparr>)"
    by (rule writeClip_fits)
      (simp_all add: sample_writer_opened cx xml_header_def buffer_limit_def,
       simp_all add: sample_clip_def quoted_text_def)
  have save: "saveProject sample_env ?p [] [] ''/home/user/work/out.xml''
                = (makeSuccess 140, Some (saveProject_content sample_env ?p))"
    by (rule saveProject_succeeds [where canonicalPath = "''/home/user/work/out.xml''"])
      (simp_all add: sample_env_answers parent_path_def extension_def filename_def
        sample_project_def quoted_text_def double_greater_def)
  show ?thesis
    unfolding track info clip save tx px cx sx
    by (simp add: makeSuccess_def sample_writer_opened)
qed

section \<open>Properties of the data access engine\<close>

lemma loadClips_success_iff:
  "success (loadClips e path trackId)
     = (path \<noteq> [] \<and> trackId \<noteq> [] \<and> fs_exists e path = Inr True
        \<and> fs_is_regular_file e path = Inr True \<and> length trackId \<le> 256)"
  by (auto simp: loadClips_def makeError_def makeSuccess_def split: sum.splits)

lemma loadClips_empty_trackId:
  "loadClips e (c # cs) [] = makeError1 ''Track ID cannot be empty''"
  by (simp add: loadClips_def)

text \<open>
  \<open>loadClips\<close> asks neither for the size of the file nor whether it can be opened: its
  result is the same whatever the answers to those two questions are.
\<close>

lemma loadClips_ignores_size_and_readability:
  "loadClips (e\<lparr>fs_file_size := size_answer, ifstream_good := good_answer\<rparr>) path trackId
     = loadClips e path trackId"
  by (simp add: loadClips_def split: sum.split)

text \<open>
  Claim C5 says that \<open>loadClips\<close> succeeds only when the path preconditions hold, which
  include a file size of at most 100 MiB. \<open>loadClips\<close> never asks for the size: on the
  readable regular file \<open>big.dawproject\<close> of 200 MiB it succeeds.
\<close>

theorem C5_large_file_counterexample:
  "success (loadClips sample_env ''big.dawproject'' ''track_1'')
   \<and> fs_file_size sample_env ''big.dawproject'' = Inr 209715200
   \<and> \<not> (209715200 :: nat) \<le> 100 * 1024 * 1024"
  by (simp add: loadClips_success_iff sample_env_answers)

text \<open>
  Claim C5, amended. \<open>loadClips(path, trackId)\<close> returns an error Result when \<open>trackId\<close>
  is empty and when it is longer than 256 characters. It succeeds only when the path
  is non-empty, exists and is a regular file and \<open>trackId\<close> is non-empty and at most
  256 characters long; for a readable file these conditions are also enough, and the
  call then returns no clips. The size of the file is not checked: the result is the
  same whatever size the file has.
\<close>

theorem C5_loadClips_amended:
  "(trackId = [] \<longrightarrow> \<not> success (loadClips e path trackId))
   \<and> (256 < length trackId \<longrightarrow> \<not> success (loadClips e path trackId))
   \<and> (success (loadClips e path trackId) \<longrightarrow>
        path \<noteq> [] \<and> fs_exists e path = Inr True \<and> fs_is_regular_file e path = Inr True
        \<and> trackId \<noteq> [] \<and> length trackId \<le> 256)
   \<and> (path \<noteq> [] \<and> fs_exists e path = Inr True \<and> fs_is_regular_file e path = Inr True
        \<and> ifstream_good e path \<and> trackId \<noteq> [] \<and> length trackId \<le> 256 \<longrightarrow>
        loadClips e path trackId = makeSuccess [])
   \<and> loadClips (e\<lparr>fs_file_size := size_answer\<rparr>) path trackId = loadClips e path trackId"
proof -
  have "loadClips (e\<lparr>fs_file_size := size_answer\<rparr>) path trackId = loadClips e path trackId"
    by (simp add: loadClips_def split: sum.split)
  moreover have "loadClips e path trackId = makeSuccess []"
    if "path \<noteq> []" "fs_exists e path = Inr True" "fs_is_regular_file e path = Inr True"
      "trackId \<noteq> []" "length trackId \<le> 256"
    using that by (simp add: loadClips_def)
  ultimately show ?thesis
    by (auto simp: loadClips_success_iff)
qed

theorem C5_loadClips_amended_witness:
  "loadClips sample_env ''in.dawproject'' ''track_1'' = makeSuccess []
   \<and> success (loadClips sample_env ''in.dawproject'' ''track_1'')
   \<and> \<not> success (loadClips sample_env ''in.dawproject'' [])
   \<and> \<not> success (loadClips sample_env ''in.dawproject'' (replicate 257 (CHR ''x'')))"
proof -
  have ok: "loadClips sample_env ''in.dawproject'' ''track_1'' = makeSuccess []"
    using C5_loadClips_amended [of "''track_1''" sample_env "''in.dawproject''"]
    by (simp add: sample_env_answers)
  have empty: "\<not> success (loadClips sample_env ''in.dawproject'' [])"
    using C5_loadClips_amended [of "[]" sample_env "''in.dawproject''"] by simp
  have long: "\<not> success (loadClips sample_env ''in.dawproject'' (replicate 257 (CHR ''x'')))"
    using C5_loadClips_amended [of "replicate 257 (CHR ''x'')" sample_env "''in.dawproject''"]
    by simp
  from ok empty long show ?thesis by (simp add: makeSuccess_def)
qed

text \<open>
  Claim C1 says that \<open>saveProject\<close> rejects the path \<open>../evil.xml\<close> by its traversal
  check. The check looks for \<open>..\<close> in the parent of the resolved path, and resolving
  removes the \<open>..\<close> segment: in the sample environment the path resolves to
  \<open>/home/user/evil.xml\<close>, whose parent \<open>/home/user\<close> passes the check, and the call
  writes the file and succeeds. The parent of the path as given does contain \<open>..\<close>.
\<close>

theorem C1_traversal_not_rejected:
  "saveProject sample_env sample_project [] [] ''../evil.xml''
     = (makeSuccess 136, Some (saveProject_content sample_env sample_project))
   \<and> success (fst (saveProject sample_env sample_project [] [] ''../evil.xml''))
   \<and> str_contains (parent_path ''../evil.xml'') ''..''
   \<and> \<not> str_contains (parent_path ''/home/user/evil.xml'') ''..''"
  by (simp add: saveProject_def sample_project_def sample_env_answers
      parent_path_def extension_def filename_def double_greater_def makeSuccess_def)

end
